theory Spec2Isabelle
  imports Complex_Main
begin

section \<open>Python values, exceptions and calls\<close>

text \<open>
  The module \<^verbatim>\<open>celer/dropin_sklearn.py\<close> defines two estimator classes, \<^verbatim>\<open>Lasso\<close> and
  \<^verbatim>\<open>LassoCV\<close>, each with a constructor and a method \<^verbatim>\<open>path\<close>. Neither method computes
  anything itself: it reads attributes of the instance, calls \<^verbatim>\<open>celer_path\<close> (imported from
  \<^verbatim>\<open>celer/homotopy.py\<close>) and repacks what that call returns. The code never inspects the
  values it moves, so the model is untyped as Python is: every argument, attribute and
  result is a \<open>pyval\<close>. A float is idealised as a real number; no arithmetic is done on it
  here.
\<close>

datatype pyval =
    PyNone
  | PyBool bool
  | PyInt int
  | PyFloat real
  | PyStr string
  | PyList "pyval list"
  | PyTuple "pyval list"

text \<open>
  The exceptions the two methods can end in: a missing attribute, a failed tuple
  unpacking (\<open>ValueError\<close> for a sequence of the wrong length, \<open>TypeError\<close> for a value that
  is no sequence), and whatever a called function raises itself (\<open>Raised\<close> with its name).
\<close>

datatype exn =
    AttributeError string
  | ValueError
  | TypeError
  | Raised string

text \<open>An instance is its attribute dictionary.\<close>

type_synonym pyobj = "string \<rightharpoonup> pyval"

text \<open>Keyword arguments in the order the call site writes them.\<close>

type_synonym kwargs = "(string \<times> pyval) list"

text \<open>
  A function of another module, called with positional and keyword arguments: it returns
  a value or raises, and it may read and change the rest of the program's state (what
  has been printed, globals, caches), the \<open>'w\<close> it takes and gives back.
  \<^verbatim>\<open>celer_path\<close> is such a function; its body is not part of this module and is a
  parameter of the two \<^verbatim>\<open>path\<close> methods below.
\<close>

type_synonym 'w callable = "pyval list \<Rightarrow> kwargs \<Rightarrow> 'w \<Rightarrow> (exn + pyval) \<times> 'w"

text \<open>
  The constructor of the scikit-learn superclass, as \<^verbatim>\<open>super().__init__(...)\<close> sees it: from
  its keyword arguments to the attributes it has stored on the fresh object, or an
  exception. It belongs to scikit-learn and is a parameter as well.
\<close>

type_synonym initializer = "kwargs \<Rightarrow> exn + pyobj"

text \<open>
  What a method runs in: the instance it is called on, the calls made to \<^verbatim>\<open>celer_path\<close>
  so far (oldest first), and the rest of the program's state.
\<close>

record 'w py_state =
  this :: pyobj
  calls :: "(pyval list \<times> kwargs) list"
  world :: 'w

text \<open>\<^verbatim>\<open>self.name\<close>: the stored value, or \<open>AttributeError\<close>.\<close>

definition getattr :: "pyobj \<Rightarrow> string \<Rightarrow> exn + pyval" where
  "getattr self name =
     (case self name of None \<Rightarrow> Inl (AttributeError name) | Some v \<Rightarrow> Inr v)"

text \<open>Sequencing: the first exception ends the evaluation.\<close>

fun py_bind :: "exn + 'a \<Rightarrow> ('a \<Rightarrow> exn + 'b) \<Rightarrow> exn + 'b" where
  "py_bind (Inl e) f = Inl e"
| "py_bind (Inr v) f = f v"

text \<open>
  \<^verbatim>\<open>a, b, c = v\<close>: a list or tuple of exactly three items gives them; a string of three
  characters gives three one-character strings; any other length is a \<open>ValueError\<close>;
  \<^verbatim>\<open>None\<close>, a bool, an int or a float is not iterable.
\<close>

fun unpack3 :: "pyval \<Rightarrow> exn + (pyval \<times> pyval \<times> pyval)" where
  "unpack3 (PyTuple [a, b, c]) = Inr (a, b, c)"
| "unpack3 (PyTuple _) = Inl ValueError"
| "unpack3 (PyList [a, b, c]) = Inr (a, b, c)"
| "unpack3 (PyList _) = Inl ValueError"
| "unpack3 (PyStr [a, b, c]) = Inr (PyStr [a], PyStr [b], PyStr [c])"
| "unpack3 (PyStr _) = Inl ValueError"
| "unpack3 _ = Inl TypeError"

section \<open>The class \<^verbatim>\<open>Lasso\<close>\<close>

text \<open>
  \<^verbatim>\<open>Lasso.__init__(self, alpha=1., max_iter=100, gap_freq=10, max_epochs=50000, p0=10,
  verbose=0, tol=1e-6, prune=0)\<close>. The parameters are the values bound at the call, the
  defaults already filled in. The superclass constructor gets \<^verbatim>\<open>alpha\<close>, \<^verbatim>\<open>tol\<close> and
  \<^verbatim>\<open>max_iter\<close>; the assignments follow in the source's order, the later one winning.
\<close>

definition Lasso_init ::
  "initializer \<Rightarrow> pyval \<Rightarrow> pyval \<Rightarrow> pyval \<Rightarrow> pyval \<Rightarrow> pyval \<Rightarrow> pyval \<Rightarrow> pyval \<Rightarrow> pyval
     \<Rightarrow> exn + pyobj" where
  "Lasso_init super_init alpha max_iter gap_freq max_epochs p0 verbose tol prune =
     (case super_init [(''alpha'', alpha), (''tol'', tol), (''max_iter'', max_iter)] of
        Inl e \<Rightarrow> Inl e
      | Inr self \<Rightarrow>
          Inr (self(''verbose'' \<mapsto> verbose,
                    ''gap_freq'' \<mapsto> gap_freq,
                    ''max_epochs'' \<mapsto> max_epochs,
                    ''p0'' \<mapsto> p0,
                    ''prune'' \<mapsto> prune,
                    ''fit_intercept'' \<mapsto> PyBool False,
                    ''return_n_iter'' \<mapsto> PyBool True)))"

text \<open>
  \<^verbatim>\<open>Lasso.path(self, X, y, alphas, **kwargs)\<close>. The keyword arguments of the call are
  evaluated left to right, so the first missing attribute is the one reported and
  \<^verbatim>\<open>celer_path\<close> is not called then. Extra keyword arguments of \<^verbatim>\<open>path\<close> are accepted and
  never read. The fourth item of the returned tuple is the literal \<^verbatim>\<open>[1]\<close>.
\<close>

definition Lasso_path ::
  "'w callable \<Rightarrow> pyval \<Rightarrow> pyval \<Rightarrow> pyval \<Rightarrow> kwargs \<Rightarrow> 'w py_state
     \<Rightarrow> (exn + (pyval \<times> pyval \<times> pyval \<times> pyval)) \<times> 'w py_state" where
  "Lasso_path celer_path X y alphas kwargs s =
     (case
        py_bind (getattr (this s) ''max_iter'') (\<lambda>v_max_iter.
        py_bind (getattr (this s) ''gap_freq'') (\<lambda>v_gap_freq.
        py_bind (getattr (this s) ''max_epochs'') (\<lambda>v_max_epochs.
        py_bind (getattr (this s) ''p0'') (\<lambda>v_p0.
        py_bind (getattr (this s) ''verbose'') (\<lambda>v_verbose.
        py_bind (getattr (this s) ''tol'') (\<lambda>v_tol.
        py_bind (getattr (this s) ''prune'') (\<lambda>v_prune.
          Inr [(''alphas'', alphas), (''max_iter'', v_max_iter),
               (''gap_freq'', v_gap_freq), (''max_epochs'', v_max_epochs),
               (''p0'', v_p0), (''verbose'', v_verbose), (''tol'', v_tol),
               (''prune'', v_prune)])))))))
      of
        Inl e \<Rightarrow> (Inl e, s)
      | Inr kws \<Rightarrow>
          (case celer_path [X, y] kws (world s) of
             (returned, w) \<Rightarrow>
               (case py_bind returned unpack3 of
                  Inl e \<Rightarrow> (Inl e, s\<lparr>calls := calls s @ [([X, y], kws)], world := w\<rparr>)
                | Inr (alphas', coefs, dual_gaps) \<Rightarrow>
                    (Inr (alphas', coefs, dual_gaps, PyList [PyInt 1]),
                     s\<lparr>calls := calls s @ [([X, y], kws)], world := w\<rparr>))))"

section \<open>The class \<^verbatim>\<open>LassoCV\<close>\<close>

text \<open>
  \<^verbatim>\<open>LassoCV.__init__(self, eps=1e-3, n_alphas=100, alphas=None, fit_intercept=False,
  max_iter=100, tol=1e-6, cv=None, verbose=0, gap_freq=10, max_epochs=50000, p0=10,
  prune=0, normalize=False, precompute='auto')\<close>. The caller's \<^verbatim>\<open>fit_intercept\<close> goes to the
  superclass constructor; \<^verbatim>\<open>normalize\<close> and \<^verbatim>\<open>precompute\<close> are accepted and dropped.
\<close>

definition LassoCV_init ::
  "initializer \<Rightarrow> pyval \<Rightarrow> pyval \<Rightarrow> pyval \<Rightarrow> pyval \<Rightarrow> pyval \<Rightarrow> pyval \<Rightarrow> pyval \<Rightarrow> pyval
     \<Rightarrow> pyval \<Rightarrow> pyval \<Rightarrow> pyval \<Rightarrow> pyval \<Rightarrow> pyval \<Rightarrow> pyval \<Rightarrow> exn + pyobj" where
  "LassoCV_init super_init eps n_alphas alphas fit_intercept max_iter tol cv verbose
       gap_freq max_epochs p0 prune normalize_arg precompute =
     (case super_init [(''eps'', eps), (''n_alphas'', n_alphas), (''alphas'', alphas),
                       (''max_iter'', max_iter), (''tol'', tol), (''cv'', cv),
                       (''fit_intercept'', fit_intercept), (''verbose'', verbose)] of
        Inl e \<Rightarrow> Inl e
      | Inr self \<Rightarrow>
          Inr (self(''gap_freq'' \<mapsto> gap_freq,
                    ''max_epochs'' \<mapsto> max_epochs,
                    ''p0'' \<mapsto> p0,
                    ''prune'' \<mapsto> prune,
                    ''fit_intercept'' \<mapsto> PyBool False,
                    ''return_n_iter'' \<mapsto> PyBool True)))"

text \<open>
  \<^verbatim>\<open>LassoCV.path(self, X, y, alphas, **kwargs)\<close>: the same call, written out a second time
  in the source, and a tuple of three items.
\<close>

definition LassoCV_path ::
  "'w callable \<Rightarrow> pyval \<Rightarrow> pyval \<Rightarrow> pyval \<Rightarrow> kwargs \<Rightarrow> 'w py_state
     \<Rightarrow> (exn + (pyval \<times> pyval \<times> pyval)) \<times> 'w py_state" where
  "LassoCV_path celer_path X y alphas kwargs s =
     (case
        py_bind (getattr (this s) ''max_iter'') (\<lambda>v_max_iter.
        py_bind (getattr (this s) ''gap_freq'') (\<lambda>v_gap_freq.
        py_bind (getattr (this s) ''max_epochs'') (\<lambda>v_max_epochs.
        py_bind (getattr (this s) ''p0'') (\<lambda>v_p0.
        py_bind (getattr (this s) ''verbose'') (\<lambda>v_verbose.
        py_bind (getattr (this s) ''tol'') (\<lambda>v_tol.
        py_bind (getattr (this s) ''prune'') (\<lambda>v_prune.
          Inr [(''alphas'', alphas), (''max_iter'', v_max_iter),
               (''gap_freq'', v_gap_freq), (''max_epochs'', v_max_epochs),
               (''p0'', v_p0), (''verbose'', v_verbose), (''tol'', v_tol),
               (''prune'', v_prune)])))))))
      of
        Inl e \<Rightarrow> (Inl e, s)
      | Inr kws \<Rightarrow>
          (case celer_path [X, y] kws (world s) of
             (returned, w) \<Rightarrow>
               (case py_bind returned unpack3 of
                  Inl e \<Rightarrow> (Inl e, s\<lparr>calls := calls s @ [([X, y], kws)], world := w\<rparr>)
                | Inr (alphas', coefs, dual_gaps) \<Rightarrow>
                    (Inr (alphas', coefs, dual_gaps),
                     s\<lparr>calls := calls s @ [([X, y], kws)], world := w\<rparr>))))"

section \<open>The solver behind \<^verbatim>\<open>celer_path\<close>, after its specification\<close>

text \<open>
  Modelled from the spec: the solver configuration of the Problem Descriptor (section 2,
  item 1): tolerance, maximum of outer iterations, maximum of inner epochs, gap-check
  frequency, initial working-set size, pruning flag. The body of \<^verbatim>\<open>celer_path\<close>
  (\<^verbatim>\<open>celer/homotopy.py\<close>) and the solver it drives are not among the sources; this section
  follows the specification's words for them. The verbosity is no part of the descriptor.
\<close>

record solver_config =
  cfg_tol :: real
  cfg_max_iter :: int
  cfg_max_epochs :: int
  cfg_gap_freq :: int
  cfg_p0 :: int
  cfg_prune :: int

text \<open>
  Modelled from the spec: the ProblemDescriptor of section 3, the design matrix, the
  response vector, the alpha of the current subproblem and the configuration, missing
  with \<^verbatim>\<open>celer_path\<close>. The matrix and the vector stay as they were passed: only the
  components below look into them.
\<close>

record problem =
  pd_X :: pyval
  pd_y :: pyval
  pd_alpha :: real
  pd_config :: solver_config

text \<open>
  Modelled from the spec: the three numerical components of section 4 and the
  configuration check of section 7, missing with \<^verbatim>\<open>celer_path\<close>, by their contracts only.
  \<open>'st\<close> is what one subproblem owns (Iterate, WorkingSet, ResidualHistory).
  \<open>admissible\<close> says which matrix, vector, alphas and configuration are not a
  configuration error; \<open>warm_start\<close> seeds the state from the previous alpha's final
  state, or from zero; \<open>grow\<close> is the Working Set Manager (growing, and pruning if the
  descriptor says so); \<open>epoch\<close> is one sweep of the Coordinate Descent Epoch Engine;
  \<open>gap_check\<close> is the Dual Gap and Extrapolation Module, which returns the gap and pushes
  a snapshot into the history; \<open>coef\<close> reads the coefficient vector \<open>w\<close>. Each is a function
  of the descriptor and the state, as its contract says ("given ...").
\<close>

record 'st kernel =
  admissible :: "pyval \<Rightarrow> pyval \<Rightarrow> real list \<Rightarrow> solver_config \<Rightarrow> bool"
  warm_start :: "problem \<Rightarrow> 'st option \<Rightarrow> 'st"
  grow :: "problem \<Rightarrow> 'st \<Rightarrow> 'st"
  epoch :: "problem \<Rightarrow> 'st \<Rightarrow> 'st"
  gap_check :: "problem \<Rightarrow> 'st \<Rightarrow> real \<times> 'st"
  coef :: "'st \<Rightarrow> real list"

text \<open>
  Modelled from the spec: the PathResult of section 3, missing with \<^verbatim>\<open>celer_path\<close>: for
  one alpha the coefficients, the achieved gap, the outer iterations used, and whether
  the gap reached the tolerance within \<open>max_iter\<close> (section 4.4: non-convergence is
  recorded in the PathResult).
\<close>

record path_result =
  pr_w :: "real list"
  pr_gap :: real
  pr_n_iter :: int
  pr_converged :: bool

text \<open>
  Modelled from the spec: the observability output of section 6, missing with
  \<^verbatim>\<open>celer_path\<close>: a line per epoch (alpha, outer iteration, epochs left in the batch) and
  a line per outer iteration (alpha, outer iteration, gap). The lines printed so far are
  the program state the solver changes.
\<close>

datatype log_line = Epoch_line real int nat | Gap_line real int real

text \<open>
  Modelled from the spec: the state \<open>EPOCHS\<close> of section 4.4, missing with \<^verbatim>\<open>celer_path\<close>:
  a batch of epochs on the current working set, each logged at verbosity 2 and above.
\<close>

fun run_epochs ::
  "'st kernel \<Rightarrow> problem \<Rightarrow> int \<Rightarrow> int \<Rightarrow> nat \<Rightarrow> 'st \<Rightarrow> log_line list
     \<Rightarrow> 'st \<times> log_line list" where
  "run_epochs K P level n 0 st out = (st, out)"
| "run_epochs K P level n (Suc k) st out =
     run_epochs K P level n k (epoch K P st)
       (if 2 \<le> level then out @ [Epoch_line (pd_alpha P) n k] else out)"

text \<open>
  Modelled from the spec: the state machine of section 4.4 for one alpha, from \<open>GROWING\<close>
  on, missing with \<^verbatim>\<open>celer_path\<close>. \<open>n\<close> counts the outer iterations done. One iteration
  grows the working set, runs a batch of \<open>gap_freq\<close> epochs (never more than
  \<open>max_epochs\<close>) and checks the gap, logged at verbosity 1 and above. A gap of at most
  \<open>tol\<close> is \<open>CONVERGED\<close>; otherwise, with the count below \<open>max_iter\<close>, back to \<open>GROWING\<close>;
  otherwise the machine stops with what it has and records non-convergence.
\<close>

function outer ::
  "'st kernel \<Rightarrow> problem \<Rightarrow> int \<Rightarrow> int \<Rightarrow> 'st \<Rightarrow> log_line list
     \<Rightarrow> path_result \<times> 'st \<times> log_line list" where
  "outer K P level n st out =
     (case run_epochs K P level (n + 1)
             (nat (min (cfg_gap_freq (pd_config P)) (cfg_max_epochs (pd_config P))))
             (grow K P st) out of
        (st2, out2) \<Rightarrow>
          (case gap_check K P st2 of
             (g, st3) \<Rightarrow>
               (let out3 = (if 1 \<le> level then out2 @ [Gap_line (pd_alpha P) (n + 1) g]
                            else out2)
                in if g \<le> cfg_tol (pd_config P) then
                     (\<lparr>pr_w = coef K st3, pr_gap = g, pr_n_iter = n + 1,
                       pr_converged = True\<rparr>, st3, out3)
                   else if n + 1 < cfg_max_iter (pd_config P) then
                     outer K P level (n + 1) st3 out3
                   else
                     (\<lparr>pr_w = coef K st3, pr_gap = g, pr_n_iter = n + 1,
                       pr_converged = False\<rparr>, st3, out3))))"
  by pat_completeness auto
termination
  by (relation "measure (\<lambda>(K, P, level, n, st, out). nat (cfg_max_iter (pd_config P) - n))")
    auto

text \<open>
  Modelled from the spec: the Path Orchestrator (section 2, item 5), missing with
  \<^verbatim>\<open>celer_path\<close>: the alphas in the order supplied, one after the other, each subproblem
  warm-started from the state the previous one ended in, the first from nothing.
\<close>

fun path_loop ::
  "'st kernel \<Rightarrow> pyval \<Rightarrow> pyval \<Rightarrow> solver_config \<Rightarrow> int \<Rightarrow> real list \<Rightarrow> 'st option
     \<Rightarrow> log_line list \<Rightarrow> path_result list \<times> log_line list" where
  "path_loop K X y cfg level [] prev out = ([], out)"
| "path_loop K X y cfg level (a # as) prev out =
     (case outer K \<lparr>pd_X = X, pd_y = y, pd_alpha = a, pd_config = cfg\<rparr> level 0
             (warm_start K \<lparr>pd_X = X, pd_y = y, pd_alpha = a, pd_config = cfg\<rparr> prev) out of
        (r, st, out') \<Rightarrow>
          (case path_loop K X y cfg level as (Some st) out' of
             (rs, out'') \<Rightarrow> (r # rs, out'')))"

text \<open>
  Modelled from the spec: how \<^verbatim>\<open>celer_path\<close>, missing from the sources, reads its
  arguments. The class docstrings give the types: \<^verbatim>\<open>tol\<close> and the alphas are floats,
  \<^verbatim>\<open>max_iter\<close>, \<^verbatim>\<open>gap_freq\<close>, \<^verbatim>\<open>max_epochs\<close> and \<^verbatim>\<open>p0\<close> are ints, \<^verbatim>\<open>prune\<close> is 0 or 1 and
  \<^verbatim>\<open>verbose\<close> is a bool or an integer. Python takes an int or a bool where a float is
  meant, and a bool where an int is meant.
\<close>

fun as_real :: "pyval \<Rightarrow> real option" where
  "as_real (PyFloat r) = Some r"
| "as_real (PyInt i) = Some (of_int i)"
| "as_real (PyBool b) = Some (if b then 1 else 0)"
| "as_real _ = None"

text \<open>
  Modelled from the spec: an int argument of \<^verbatim>\<open>celer_path\<close>, missing from the sources, as
  above.
\<close>

fun as_int :: "pyval \<Rightarrow> int option" where
  "as_int (PyInt i) = Some i"
| "as_int (PyBool b) = Some (if b then 1 else 0)"
| "as_int _ = None"

text \<open>
  Modelled from the spec: the ordered sequence of alphas \<^verbatim>\<open>celer_path\<close>, missing from the
  sources, is given (section 6), a list or a tuple of floats.
\<close>

fun as_reals :: "pyval \<Rightarrow> real list option" where
  "as_reals (PyList vs) = those (map as_real vs)"
| "as_reals (PyTuple vs) = those (map as_real vs)"
| "as_reals _ = None"

text \<open>
  Modelled from the spec: a keyword argument of \<^verbatim>\<open>celer_path\<close>, missing from the sources,
  read as the type it is documented with; \<open>None\<close> when it is absent or of another type.
\<close>

definition kwarg :: "kwargs \<Rightarrow> string \<Rightarrow> (pyval \<Rightarrow> 'a option) \<Rightarrow> 'a option" where
  "kwarg kws name read = Option.bind (map_of kws name) read"

text \<open>
  Modelled from the spec: the solver entry point of section 6, \<^verbatim>\<open>celer_path\<close>, whose body
  is missing from the sources, over a kernel of components. Input: the design matrix and
  the response vector, the ordered sequence of alphas and the configuration
  \<^verbatim>\<open>{max_iter, gap_freq, max_epochs, p0, tol, prune, verbose}\<close>; an argument of another type
  is a \<open>TypeError\<close>, and a configuration the kernel's check does not admit is a
  configuration error (section 7), raised before the first subproblem. The program
  state it changes is the list of lines printed. It returns three values, the alphas,
  the coefficient vectors and the duality gaps, one per alpha: both call sites in
  \<^verbatim>\<open>dropin_sklearn.py\<close> unpack exactly three, so the iteration counts and the convergence
  flags of the PathResults stay inside.
\<close>

definition celer_path_spec :: "'st kernel \<Rightarrow> (log_line list) callable" where
  "celer_path_spec K args kws out =
     (case args of
        [X, y] \<Rightarrow>
          (case Option.bind (kwarg kws ''alphas'' as_reals) (\<lambda>alphas.
                Option.bind (kwarg kws ''max_iter'' as_int) (\<lambda>mi.
                Option.bind (kwarg kws ''gap_freq'' as_int) (\<lambda>gf.
                Option.bind (kwarg kws ''max_epochs'' as_int) (\<lambda>me.
                Option.bind (kwarg kws ''p0'' as_int) (\<lambda>p.
                Option.bind (kwarg kws ''verbose'' as_int) (\<lambda>level.
                Option.bind (kwarg kws ''tol'' as_real) (\<lambda>t.
                Option.bind (kwarg kws ''prune'' as_int) (\<lambda>pr.
                  Some (alphas, level,
                        \<lparr>cfg_tol = t, cfg_max_iter = mi, cfg_max_epochs = me,
                         cfg_gap_freq = gf, cfg_p0 = p, cfg_prune = pr\<rparr>))))))))) of
             None \<Rightarrow> (Inl TypeError, out)
           | Some (alphas, level, cfg) \<Rightarrow>
               if admissible K X y alphas cfg then
                 (case path_loop K X y cfg level alphas None out of
                    (rs, out') \<Rightarrow>
                      (Inr (PyTuple [PyList (map PyFloat alphas),
                                     PyList (map (\<lambda>r. PyList (map PyFloat (pr_w r))) rs),
                                     PyList (map (\<lambda>r. PyFloat (pr_gap r)) rs)]),
                       out'))
               else (Inl ValueError, out))
      | _ \<Rightarrow> (Inl TypeError, out))"


section \<open>Example objects\<close>

text \<open>
  Concrete stand-ins for the two parameters, used where a statement is evaluated on an
  input: a function that returns a fixed value whatever it is called with and touches
  nothing, one that raises a fixed exception, and a superclass constructor that stores exactly the keyword
  arguments it is given, as scikit-learn estimators do.
\<close>

definition returning :: "pyval \<Rightarrow> 'w callable" where
  "returning v args kws w = (Inr v, w)"

definition raising :: "exn \<Rightarrow> 'w callable" where
  "raising e args kws w = (Inl e, w)"

definition keeps_kwargs :: initializer where
  "keeps_kwargs kws = Inr (map_of kws)"

text \<open>The data of the class docstring: \<^verbatim>\<open>clf.fit([[0,0], [1, 1], [2, 2]], [0, 1, 2])\<close>.\<close>

definition doc_X :: pyval where
  "doc_X = PyList [PyList [PyInt 0, PyInt 0], PyList [PyInt 1, PyInt 1],
                   PyList [PyInt 2, PyInt 2]]"

definition doc_y :: pyval where
  "doc_y = PyList [PyInt 0, PyInt 1, PyInt 2]"

text \<open>
  The attributes of \<^verbatim>\<open>Lasso(alpha=0.1)\<close>, every other parameter at its default, and of
  \<^verbatim>\<open>LassoCV(fit_intercept=True)\<close>, over \<open>keeps_kwargs\<close>, in the order they are written
  (for \<^verbatim>\<open>fit_intercept\<close> of the second, the superclass's \<^verbatim>\<open>True\<close> first and the
  constructor's \<^verbatim>\<open>False\<close> over it).
\<close>

definition doc_lasso :: pyobj where
  "doc_lasso =
     [''max_iter'' \<mapsto> PyInt 100, ''tol'' \<mapsto> PyFloat (1 / 1000000),
      ''alpha'' \<mapsto> PyFloat (1 / 10), ''verbose'' \<mapsto> PyInt 0, ''gap_freq'' \<mapsto> PyInt 10,
      ''max_epochs'' \<mapsto> PyInt 50000, ''p0'' \<mapsto> PyInt 10, ''prune'' \<mapsto> PyInt 0,
      ''fit_intercept'' \<mapsto> PyBool False, ''return_n_iter'' \<mapsto> PyBool True]"

definition doc_lasso_cv :: pyobj where
  "doc_lasso_cv =
     [''verbose'' \<mapsto> PyInt 0, ''fit_intercept'' \<mapsto> PyBool True, ''cv'' \<mapsto> PyNone,
      ''tol'' \<mapsto> PyFloat (1 / 1000000), ''max_iter'' \<mapsto> PyInt 100, ''alphas'' \<mapsto> PyNone,
      ''n_alphas'' \<mapsto> PyInt 100, ''eps'' \<mapsto> PyFloat (1 / 1000), ''gap_freq'' \<mapsto> PyInt 10,
      ''max_epochs'' \<mapsto> PyInt 50000, ''p0'' \<mapsto> PyInt 10, ''prune'' \<mapsto> PyInt 0,
      ''fit_intercept'' \<mapsto> PyBool False, ''return_n_iter'' \<mapsto> PyBool True]"

text \<open>
  A configuration the specification calls invalid: \<^verbatim>\<open>Lasso(alpha=-1, tol=0)\<close>, to be run
  on a design matrix of three samples and no feature.
\<close>

definition invalid_lasso :: pyobj where
  "invalid_lasso =
     [''max_iter'' \<mapsto> PyInt 100, ''tol'' \<mapsto> PyFloat 0, ''alpha'' \<mapsto> PyFloat (- 1),
      ''verbose'' \<mapsto> PyInt 0, ''gap_freq'' \<mapsto> PyInt 10, ''max_epochs'' \<mapsto> PyInt 50000,
      ''p0'' \<mapsto> PyInt 10, ''prune'' \<mapsto> PyInt 0, ''fit_intercept'' \<mapsto> PyBool False,
      ''return_n_iter'' \<mapsto> PyBool True]"

definition empty_X :: pyval where
  "empty_X = PyList [PyList [], PyList [], PyList []]"

text \<open>
  A kernel to run the orchestrator on: the state of a subproblem is one number, its
  distance from the optimum, which also is the gap and the only coefficient; an epoch
  halves it; a warm start adds 1 to where the previous subproblem ended, the first
  subproblem starts at 1. It admits a positive tolerance and alphas that are not
  negative.
\<close>

definition halving :: "real kernel" where
  "halving =
     \<lparr>admissible = (\<lambda>X y alphas cfg. 0 < cfg_tol cfg \<and> list_all (\<lambda>a. 0 \<le> a) alphas),
      warm_start = (\<lambda>P prev. case prev of None \<Rightarrow> 1 | Some s \<Rightarrow> s + 1),
      grow = (\<lambda>P st. st),
      epoch = (\<lambda>P st. st / 2),
      gap_check = (\<lambda>P st. (st, st)),
      coef = (\<lambda>st. [st])\<rparr>"

text \<open>
  The attributes of \<^verbatim>\<open>Lasso(alpha=0.1, gap_freq=1, tol=0.25)\<close> and of
  \<^verbatim>\<open>Lasso(alpha=0.1, gap_freq=1, tol=0.25, verbose=2)\<close>, over \<open>keeps_kwargs\<close>.
\<close>

definition coarse_lasso :: pyobj where
  "coarse_lasso =
     [''max_iter'' \<mapsto> PyInt 100, ''tol'' \<mapsto> PyFloat (1 / 4), ''alpha'' \<mapsto> PyFloat (1 / 10),
      ''verbose'' \<mapsto> PyInt 0, ''gap_freq'' \<mapsto> PyInt 1, ''max_epochs'' \<mapsto> PyInt 50000,
      ''p0'' \<mapsto> PyInt 10, ''prune'' \<mapsto> PyInt 0, ''fit_intercept'' \<mapsto> PyBool False,
      ''return_n_iter'' \<mapsto> PyBool True]"

definition chatty_lasso :: pyobj where
  "chatty_lasso =
     [''max_iter'' \<mapsto> PyInt 100, ''tol'' \<mapsto> PyFloat (1 / 4), ''alpha'' \<mapsto> PyFloat (1 / 10),
      ''verbose'' \<mapsto> PyInt 2, ''gap_freq'' \<mapsto> PyInt 1, ''max_epochs'' \<mapsto> PyInt 50000,
      ''p0'' \<mapsto> PyInt 10, ''prune'' \<mapsto> PyInt 0, ''fit_intercept'' \<mapsto> PyBool False,
      ''return_n_iter'' \<mapsto> PyBool True]"


section \<open>The constructors\<close>

lemma doc_lasso_constructed:
  "Lasso_init keeps_kwargs (PyFloat (1 / 10)) (PyInt 100) (PyInt 10) (PyInt 50000) (PyInt 10)
     (PyInt 0) (PyFloat (1 / 1000000)) (PyInt 0) = Inr doc_lasso"
  by (simp add: Lasso_init_def keeps_kwargs_def doc_lasso_def)

lemma doc_lasso_cv_constructed:
  "LassoCV_init keeps_kwargs (PyFloat (1 / 1000)) (PyInt 100) PyNone (PyBool True) (PyInt 100)
     (PyFloat (1 / 1000000)) PyNone (PyInt 0) (PyInt 10) (PyInt 50000) (PyInt 10) (PyInt 0)
     (PyBool False) (PyStr ''auto'') = Inr doc_lasso_cv"
  by (simp add: LassoCV_init_def keeps_kwargs_def doc_lasso_cv_def)

lemma invalid_lasso_constructed:
  "Lasso_init keeps_kwargs (PyFloat (- 1)) (PyInt 100) (PyInt 10) (PyInt 50000) (PyInt 10)
     (PyInt 0) (PyFloat 0) (PyInt 0) = Inr invalid_lasso"
  by (simp add: Lasso_init_def keeps_kwargs_def invalid_lasso_def)

text \<open>A constructor fails exactly when the superclass constructor does.\<close>

lemma Lasso_init_fails_iff:
  "Lasso_init super_init alpha mi gf me p vb tv pr = Inl e \<longleftrightarrow>
   super_init [(''alpha'', alpha), (''tol'', tv), (''max_iter'', mi)] = Inl e"
  by (simp add: Lasso_init_def split: sum.splits)

lemma LassoCV_init_fails_iff:
  "LassoCV_init super_init eps na al fi mi tv cv vb gf me p pr nz pc = Inl e \<longleftrightarrow>
   super_init [(''eps'', eps), (''n_alphas'', na), (''alphas'', al), (''max_iter'', mi),
               (''tol'', tv), (''cv'', cv), (''fit_intercept'', fi), (''verbose'', vb)] = Inl e"
  by (simp add: LassoCV_init_def split: sum.splits)

section \<open>What \<^verbatim>\<open>Lasso.path\<close> does with the solver\<close>

text \<open>
  C2. \<^verbatim>\<open>Lasso.path\<close> is adapter glue. On an instance that has its seven configuration
  attributes stored, it calls \<^verbatim>\<open>celer_path\<close> once (the call log grows by exactly one
  entry, and the program state is what that one call leaves), with \<^verbatim>\<open>X\<close>, \<^verbatim>\<open>y\<close>, the
  given \<^verbatim>\<open>alphas\<close> and the stored \<^verbatim>\<open>max_iter\<close>, \<^verbatim>\<open>gap_freq\<close>, \<^verbatim>\<open>max_epochs\<close>, \<^verbatim>\<open>p0\<close>, \<^verbatim>\<open>verbose\<close>, \<^verbatim>\<open>tol\<close> and \<^verbatim>\<open>prune\<close> unchanged; the instance is left as
  it was; the three values \<^verbatim>\<open>celer_path\<close> returns come back as the first three items of
  the result, untouched; and an exception of \<^verbatim>\<open>celer_path\<close> is passed on as it is.
\<close>

theorem Lasso_path_is_adapter_glue:
  fixes alphas :: pyval
  assumes "this s ''max_iter'' = Some mi" and "this s ''gap_freq'' = Some gf"
    and "this s ''max_epochs'' = Some me" and "this s ''p0'' = Some p"
    and "this s ''verbose'' = Some vb" and "this s ''tol'' = Some tv"
    and "this s ''prune'' = Some pr"
  defines "kws \<equiv> [(''alphas'', alphas), (''max_iter'', mi), (''gap_freq'', gf),
                  (''max_epochs'', me), (''p0'', p), (''verbose'', vb), (''tol'', tv),
                  (''prune'', pr)]"
  shows "calls (snd (Lasso_path celer_path X y alphas kwargs s)) = calls s @ [([X, y], kws)]
       \<and> this (snd (Lasso_path celer_path X y alphas kwargs s)) = this s
       \<and> world (snd (Lasso_path celer_path X y alphas kwargs s))
           = snd (celer_path [X, y] kws (world s))
       \<and> (fst (celer_path [X, y] kws (world s)) = Inr r \<longrightarrow> unpack3 r = Inr (a, c, g) \<longrightarrow>
            fst (Lasso_path celer_path X y alphas kwargs s) = Inr (a, c, g, PyList [PyInt 1]))
       \<and> (fst (celer_path [X, y] kws (world s)) = Inl e \<longrightarrow>
            fst (Lasso_path celer_path X y alphas kwargs s) = Inl e)"
  using assms(1-7) unfolding kws_def
  by (auto simp: Lasso_path_def getattr_def split: sum.splits prod.splits)

theorem Lasso_path_is_adapter_glue_witness:
  "Lasso_path
      (returning (PyTuple [PyList [PyFloat (1 / 10)],
                           PyList [PyList [PyFloat (17 / 20), PyFloat 0]],
                           PyList [PyFloat 0]]))
      doc_X doc_y (PyList [PyFloat (1 / 10)]) [] \<lparr>this = doc_lasso, calls = [], world = ()\<rparr>
   = (Inr (PyList [PyFloat (1 / 10)], PyList [PyList [PyFloat (17 / 20), PyFloat 0]],
           PyList [PyFloat 0], PyList [PyInt 1]),
      \<lparr>this = doc_lasso,
       calls = [([doc_X, doc_y],
                 [(''alphas'', PyList [PyFloat (1 / 10)]), (''max_iter'', PyInt 100),
                  (''gap_freq'', PyInt 10), (''max_epochs'', PyInt 50000), (''p0'', PyInt 10),
                  (''verbose'', PyInt 0), (''tol'', PyFloat (1 / 1000000)),
                  (''prune'', PyInt 0)])], world = ()\<rparr>)"
proof -
  let ?s = "\<lparr>this = doc_lasso, calls = [], world = ()\<rparr>"
  let ?r = "PyTuple [PyList [PyFloat (1 / 10)], PyList [PyList [PyFloat (17 / 20), PyFloat 0]],
                     PyList [PyFloat 0]]"
  have stored: "this ?s ''max_iter'' = Some (PyInt 100)" "this ?s ''gap_freq'' = Some (PyInt 10)"
    "this ?s ''max_epochs'' = Some (PyInt 50000)" "this ?s ''p0'' = Some (PyInt 10)"
    "this ?s ''verbose'' = Some (PyInt 0)" "this ?s ''tol'' = Some (PyFloat (1 / 1000000))"
    "this ?s ''prune'' = Some (PyInt 0)"
    by (simp_all add: doc_lasso_def)
  from Lasso_path_is_adapter_glue [OF stored,
      where celer_path = "returning ?r" and X = doc_X and y = doc_y
        and alphas = "PyList [PyFloat (1 / 10)]" and kwargs = "[]" and r = ?r
        and a = "PyList [PyFloat (1 / 10)]"
        and c = "PyList [PyList [PyFloat (17 / 20), PyFloat 0]]"
        and g = "PyList [PyFloat 0]"]
  show ?thesis
    by (simp add: returning_def prod_eq_iff py_state.equality)
qed

text \<open>
  C7. Whatever \<^verbatim>\<open>X\<close>, \<^verbatim>\<open>y\<close> and \<^verbatim>\<open>alphas\<close> are and whatever \<^verbatim>\<open>celer_path\<close> does, when
  \<^verbatim>\<open>Lasso.path\<close> returns a tuple its fourth item is the list \<^verbatim>\<open>[1]\<close>.
\<close>

theorem Lasso_path_fourth_item_is_constant:
  "fst (Lasso_path celer_path X y alphas kwargs s) = Inr (a, c, g, n) \<Longrightarrow> n = PyList [PyInt 1]"
  by (auto simp: Lasso_path_def split: sum.splits prod.splits)

text \<open>
  The same call as above with a solver that stops far from the optimum (a gap of 5 for a
  tolerance of \<open>1e-6\<close>): the fourth item is still \<^verbatim>\<open>[1]\<close>.
\<close>

theorem Lasso_path_fourth_item_is_constant_witness:
  "fst (Lasso_path
          (returning (PyTuple [PyList [PyFloat (1 / 10)], PyList [PyList [PyFloat 0, PyFloat 0]],
                               PyList [PyFloat 5]]))
          doc_X doc_y (PyList [PyFloat (1 / 10)]) [] \<lparr>this = doc_lasso, calls = [], world = ()\<rparr>)
   = Inr (PyList [PyFloat (1 / 10)], PyList [PyList [PyFloat 0, PyFloat 0]], PyList [PyFloat 5],
          PyList [PyInt 1])"
proof -
  obtain n where ret:
    "fst (Lasso_path
            (returning (PyTuple [PyList [PyFloat (1 / 10)], PyList [PyList [PyFloat 0, PyFloat 0]],
                                 PyList [PyFloat 5]]))
            doc_X doc_y (PyList [PyFloat (1 / 10)]) [] \<lparr>this = doc_lasso, calls = [], world = ()\<rparr>)
     = Inr (PyList [PyFloat (1 / 10)], PyList [PyList [PyFloat 0, PyFloat 0]], PyList [PyFloat 5], n)"
    by (simp add: Lasso_path_def getattr_def doc_lasso_def returning_def)
  from Lasso_path_fourth_item_is_constant [OF ret] ret show ?thesis
    by simp
qed

text \<open>
  C1, as the specification states it: \<^verbatim>\<open>Lasso.path\<close> returns, for each alpha, the
  coefficient vector, the final duality gap and the number of outer iterations that
  alpha's subproblem took, and a flag saying whether it converged. It does not hold: for
  a path of two alphas the fourth item of the result is the one-element list \<^verbatim>\<open>[1]\<close>, so
  there is no count for each alpha, and the tuple has no fifth item for a flag.
\<close>

theorem Lasso_path_one_count_for_two_alphas:
  "fst (Lasso_path
          (returning (PyTuple [PyList [PyFloat 1, PyFloat (1 / 2)],
                               PyList [PyList [PyFloat 0, PyFloat 0],
                                       PyList [PyFloat (1 / 4), PyFloat 0]],
                               PyList [PyFloat 0, PyFloat 0]]))
          doc_X doc_y (PyList [PyFloat 1, PyFloat (1 / 2)]) [] \<lparr>this = doc_lasso, calls = [], world = ()\<rparr>)
     = Inr (PyList [PyFloat 1, PyFloat (1 / 2)],
            PyList [PyList [PyFloat 0, PyFloat 0], PyList [PyFloat (1 / 4), PyFloat 0]],
            PyList [PyFloat 0, PyFloat 0],
            PyList [PyInt 1])
   \<and> length [PyInt 1] < length [PyFloat 1, PyFloat (1 / 2)]"
  by (simp add: Lasso_path_def getattr_def doc_lasso_def returning_def)

text \<open>
  C1, amended. On an instance with its seven configuration attributes stored, whenever
  \<^verbatim>\<open>celer_path\<close> returns three values, \<^verbatim>\<open>Lasso.path\<close> returns (it raises nothing of its
  own, whatever the gaps are) a tuple of four items whose first three are those values:
  the alphas, the coefficients and the duality gaps as \<^verbatim>\<open>celer_path\<close> computed them.
  Nothing is said here about the fourth item.
\<close>

theorem Lasso_path_returns_solver_triple:
  fixes alphas :: pyval
  assumes "this s ''max_iter'' = Some mi" and "this s ''gap_freq'' = Some gf"
    and "this s ''max_epochs'' = Some me" and "this s ''p0'' = Some p"
    and "this s ''verbose'' = Some vb" and "this s ''tol'' = Some tv"
    and "this s ''prune'' = Some pr"
    and "fst (celer_path [X, y] [(''alphas'', alphas), (''max_iter'', mi), (''gap_freq'', gf),
                  (''max_epochs'', me), (''p0'', p), (''verbose'', vb), (''tol'', tv),
                  (''prune'', pr)] (world s)) = Inr r"
    and "unpack3 r = Inr (a, c, g)"
  shows "\<exists>n. fst (Lasso_path celer_path X y alphas kwargs s) = Inr (a, c, g, n)"
  using assms by (simp add: Lasso_path_def getattr_def case_prod_unfold)

theorem Lasso_path_returns_solver_triple_witness:
  "\<exists>n. fst (Lasso_path
          (returning (PyTuple [PyList [PyFloat 1, PyFloat (1 / 2)],
                               PyList [PyList [PyFloat 0, PyFloat 0],
                                       PyList [PyFloat 0, PyFloat 0]],
                               PyList [PyFloat 3, PyFloat 7]]))
          doc_X doc_y (PyList [PyFloat 1, PyFloat (1 / 2)]) [] \<lparr>this = doc_lasso, calls = [], world = ()\<rparr>)
     = Inr (PyList [PyFloat 1, PyFloat (1 / 2)],
            PyList [PyList [PyFloat 0, PyFloat 0], PyList [PyFloat 0, PyFloat 0]],
            PyList [PyFloat 3, PyFloat 7], n)"
proof -
  let ?s = "\<lparr>this = doc_lasso, calls = [], world = ()\<rparr>"
  let ?r = "PyTuple [PyList [PyFloat 1, PyFloat (1 / 2)],
                     PyList [PyList [PyFloat 0, PyFloat 0], PyList [PyFloat 0, PyFloat 0]],
                     PyList [PyFloat 3, PyFloat 7]]"
  have stored: "this ?s ''max_iter'' = Some (PyInt 100)" "this ?s ''gap_freq'' = Some (PyInt 10)"
    "this ?s ''max_epochs'' = Some (PyInt 50000)" "this ?s ''p0'' = Some (PyInt 10)"
    "this ?s ''verbose'' = Some (PyInt 0)" "this ?s ''tol'' = Some (PyFloat (1 / 1000000))"
    "this ?s ''prune'' = Some (PyInt 0)"
    by (simp_all add: doc_lasso_def)
  have ret: "fst (returning ?r [doc_X, doc_y]
      [(''alphas'', PyList [PyFloat 1, PyFloat (1 / 2)]), (''max_iter'', PyInt 100),
       (''gap_freq'', PyInt 10), (''max_epochs'', PyInt 50000), (''p0'', PyInt 10),
       (''verbose'', PyInt 0), (''tol'', PyFloat (1 / 1000000)), (''prune'', PyInt 0)]
      (world ?s)) = Inr ?r"
    by (simp add: returning_def)
  have three: "unpack3 ?r = Inr (PyList [PyFloat 1, PyFloat (1 / 2)],
            PyList [PyList [PyFloat 0, PyFloat 0], PyList [PyFloat 0, PyFloat 0]],
            PyList [PyFloat 3, PyFloat 7])"
    by simp
  from Lasso_path_returns_solver_triple [where celer_path = "returning ?r" and kwargs = "[]",
      OF stored ret three]
  show ?thesis .
qed

section \<open>Errors under the wrapper\<close>

text \<open>
  Neither \<^verbatim>\<open>Lasso.__init__\<close> nor \<^verbatim>\<open>Lasso.path\<close> checks a value. The constructor fails only
  when the superclass constructor fails. On an instance with its seven configuration
  attributes stored, \<^verbatim>\<open>path\<close> calls \<^verbatim>\<open>celer_path\<close> with the stored values whatever they
  are, and ends in an exception exactly when \<^verbatim>\<open>celer_path\<close> raises (the same exception
  reaches the caller) or returns something that is not three values. So a configuration
  is rejected where \<^verbatim>\<open>celer_path\<close> rejects it.
\<close>

lemma wrapper_rejects_nothing_itself:
  fixes alphas :: pyval
  assumes "this s ''max_iter'' = Some mi" and "this s ''gap_freq'' = Some gf"
    and "this s ''max_epochs'' = Some me" and "this s ''p0'' = Some p"
    and "this s ''verbose'' = Some vb" and "this s ''tol'' = Some tv"
    and "this s ''prune'' = Some pr"
  defines "kws \<equiv> [(''alphas'', alphas), (''max_iter'', mi), (''gap_freq'', gf),
                  (''max_epochs'', me), (''p0'', p), (''verbose'', vb), (''tol'', tv),
                  (''prune'', pr)]"
  shows "(Lasso_init super_init c_alpha c_max_iter c_gap_freq c_max_epochs c_p0 c_verbose c_tol
            c_prune = Inl e
          \<longleftrightarrow> super_init [(''alpha'', c_alpha), (''tol'', c_tol), (''max_iter'', c_max_iter)] = Inl e)
       \<and> calls (snd (Lasso_path celer_path X y alphas kwargs s)) = calls s @ [([X, y], kws)]
       \<and> (fst (Lasso_path celer_path X y alphas kwargs s) = Inl e'
          \<longleftrightarrow> py_bind (fst (celer_path [X, y] kws (world s))) unpack3 = Inl e')"
  using assms(1-7) unfolding kws_def
  by (auto simp: Lasso_init_def Lasso_path_def getattr_def split: sum.splits prod.splits)

section \<open>Attributes the constructors fix\<close>

text \<open>
  C8. After either constructor has returned an instance, whatever the arguments and
  whatever the superclass constructor stored, \<^verbatim>\<open>fit_intercept\<close> is \<^verbatim>\<open>False\<close> and
  \<^verbatim>\<open>return_n_iter\<close> is \<^verbatim>\<open>True\<close>; \<^verbatim>\<open>LassoCV.__init__\<close> hands the caller's \<^verbatim>\<open>fit_intercept\<close> to
  the superclass and then overwrites it. The other operation the two classes define,
  \<^verbatim>\<open>path\<close>, leaves every attribute of the instance as it was.
\<close>

theorem constructors_fix_fit_intercept_and_return_n_iter:
  "(Lasso_init super_init alpha mi gf me p vb tv pr = Inr self \<longrightarrow>
      self ''fit_intercept'' = Some (PyBool False) \<and> self ''return_n_iter'' = Some (PyBool True))
 \<and> (LassoCV_init super_init' eps na al fi mi' tv' cv vb' gf' me' p' pr' nz pc = Inr self' \<longrightarrow>
      self' ''fit_intercept'' = Some (PyBool False) \<and> self' ''return_n_iter'' = Some (PyBool True))
 \<and> this (snd (Lasso_path celer_path X y alphas kwargs s)) = this s
 \<and> this (snd (LassoCV_path celer_path X y alphas kwargs s)) = this s"
  by (auto simp: Lasso_init_def LassoCV_init_def Lasso_path_def LassoCV_path_def
      split: sum.splits prod.splits)

theorem constructors_fix_fit_intercept_and_return_n_iter_witness:
  "keeps_kwargs [(''eps'', PyFloat (1 / 1000)), (''n_alphas'', PyInt 100), (''alphas'', PyNone),
                 (''max_iter'', PyInt 100), (''tol'', PyFloat (1 / 1000000)), (''cv'', PyNone),
                 (''fit_intercept'', PyBool True), (''verbose'', PyInt 0)]
     = Inr [''verbose'' \<mapsto> PyInt 0, ''fit_intercept'' \<mapsto> PyBool True, ''cv'' \<mapsto> PyNone,
            ''tol'' \<mapsto> PyFloat (1 / 1000000), ''max_iter'' \<mapsto> PyInt 100, ''alphas'' \<mapsto> PyNone,
            ''n_alphas'' \<mapsto> PyInt 100, ''eps'' \<mapsto> PyFloat (1 / 1000)]
   \<and> LassoCV_init keeps_kwargs (PyFloat (1 / 1000)) (PyInt 100) PyNone (PyBool True) (PyInt 100)
       (PyFloat (1 / 1000000)) PyNone (PyInt 0) (PyInt 10) (PyInt 50000) (PyInt 10) (PyInt 0)
       (PyBool False) (PyStr ''auto'') = Inr doc_lasso_cv
   \<and> doc_lasso_cv ''fit_intercept'' = Some (PyBool False)
   \<and> doc_lasso_cv ''return_n_iter'' = Some (PyBool True)
   \<and> Lasso_init keeps_kwargs (PyFloat (1 / 10)) (PyInt 100) (PyInt 10) (PyInt 50000) (PyInt 10)
       (PyInt 0) (PyFloat (1 / 1000000)) (PyInt 0) = Inr doc_lasso
   \<and> doc_lasso ''fit_intercept'' = Some (PyBool False)
   \<and> doc_lasso ''return_n_iter'' = Some (PyBool True)
   \<and> this (snd (Lasso_path (raising ValueError) doc_X doc_y (PyList [PyFloat (1 / 10)]) []
                  \<lparr>this = doc_lasso, calls = [], world = ()\<rparr>)) = doc_lasso
   \<and> this (snd (LassoCV_path (raising ValueError) doc_X doc_y (PyList [PyFloat (1 / 10)]) []
                  \<lparr>this = doc_lasso_cv, calls = [], world = ()\<rparr>)) = doc_lasso_cv"
proof -
  have base: "keeps_kwargs [(''eps'', PyFloat (1 / 1000)), (''n_alphas'', PyInt 100), (''alphas'', PyNone),
                 (''max_iter'', PyInt 100), (''tol'', PyFloat (1 / 1000000)), (''cv'', PyNone),
                 (''fit_intercept'', PyBool True), (''verbose'', PyInt 0)]
     = Inr [''verbose'' \<mapsto> PyInt 0, ''fit_intercept'' \<mapsto> PyBool True, ''cv'' \<mapsto> PyNone,
            ''tol'' \<mapsto> PyFloat (1 / 1000000), ''max_iter'' \<mapsto> PyInt 100, ''alphas'' \<mapsto> PyNone,
            ''n_alphas'' \<mapsto> PyInt 100, ''eps'' \<mapsto> PyFloat (1 / 1000)]"
    by (simp add: keeps_kwargs_def)
  from constructors_fix_fit_intercept_and_return_n_iter
    [where super_init = keeps_kwargs and alpha = "PyFloat (1 / 10)" and mi = "PyInt 100"
       and gf = "PyInt 10" and me = "PyInt 50000" and p = "PyInt 10" and vb = "PyInt 0"
       and tv = "PyFloat (1 / 1000000)" and pr = "PyInt 0" and self = doc_lasso
       and super_init' = keeps_kwargs and eps = "PyFloat (1 / 1000)" and na = "PyInt 100"
       and al = PyNone and fi = "PyBool True" and mi' = "PyInt 100"
       and tv' = "PyFloat (1 / 1000000)" and cv = PyNone and vb' = "PyInt 0"
       and gf' = "PyInt 10" and me' = "PyInt 50000" and p' = "PyInt 10" and pr' = "PyInt 0"
       and nz = "PyBool False" and pc = "PyStr ''auto''" and self' = doc_lasso_cv
       and celer_path = "raising ValueError" and X = doc_X and y = doc_y
       and alphas = "PyList [PyFloat (1 / 10)]" and kwargs = "[]"
       and s = "\<lparr>this = doc_lasso, calls = [], world = ()\<rparr>"]
    constructors_fix_fit_intercept_and_return_n_iter
    [where celer_path = "raising ValueError" and X = doc_X and y = doc_y
       and alphas = "PyList [PyFloat (1 / 10)]" and kwargs = "[]"
       and s = "\<lparr>this = doc_lasso_cv, calls = [], world = ()\<rparr>"]
    base doc_lasso_constructed doc_lasso_cv_constructed
  show ?thesis
    by simp
qed

section \<open>The two \<^verbatim>\<open>path\<close> methods\<close>

text \<open>
  C9. When a \<^verbatim>\<open>Lasso\<close> instance and a \<^verbatim>\<open>LassoCV\<close> instance agree on \<^verbatim>\<open>max_iter\<close>,
  \<^verbatim>\<open>gap_freq\<close>, \<^verbatim>\<open>max_epochs\<close>, \<^verbatim>\<open>p0\<close>, \<^verbatim>\<open>verbose\<close>, \<^verbatim>\<open>tol\<close> and \<^verbatim>\<open>prune\<close>, then for all \<^verbatim>\<open>X\<close>,
  \<^verbatim>\<open>y\<close> and \<^verbatim>\<open>alphas\<close> the first three items of what \<^verbatim>\<open>Lasso.path\<close> returns are the tuple
  \<^verbatim>\<open>LassoCV.path\<close> returns (and both end in the same exception otherwise), and the calls
  the two make to \<^verbatim>\<open>celer_path\<close>, from the same program state, are the same and leave the
  same state.
\<close>

theorem path_wrappers_call_alike:
  assumes "\<forall>name \<in> set [''max_iter'', ''gap_freq'', ''max_epochs'', ''p0'', ''verbose'', ''tol'',
                          ''prune'']. this s_lasso name = this s_cv name"
    and "world s_lasso = world s_cv"
  shows "map_sum id (\<lambda>(a, c, g, n). (a, c, g))
           (fst (Lasso_path celer_path X y alphas kwargs s_lasso))
           = fst (LassoCV_path celer_path X y alphas kwargs' s_cv)
       \<and> drop (length (calls s_lasso))
           (calls (snd (Lasso_path celer_path X y alphas kwargs s_lasso)))
           = drop (length (calls s_cv))
               (calls (snd (LassoCV_path celer_path X y alphas kwargs' s_cv)))
       \<and> world (snd (Lasso_path celer_path X y alphas kwargs s_lasso))
           = world (snd (LassoCV_path celer_path X y alphas kwargs' s_cv))"
  using assms
  by (auto simp: Lasso_path_def LassoCV_path_def getattr_def
      split: sum.splits prod.splits option.splits)

theorem path_wrappers_call_alike_witness:
  "doc_lasso ''max_iter'' = doc_lasso_cv ''max_iter''
   \<and> doc_lasso ''gap_freq'' = doc_lasso_cv ''gap_freq''
   \<and> doc_lasso ''max_epochs'' = doc_lasso_cv ''max_epochs''
   \<and> doc_lasso ''p0'' = doc_lasso_cv ''p0''
   \<and> doc_lasso ''verbose'' = doc_lasso_cv ''verbose''
   \<and> doc_lasso ''tol'' = doc_lasso_cv ''tol''
   \<and> doc_lasso ''prune'' = doc_lasso_cv ''prune''
   \<and> fst (Lasso_path
            (returning (PyTuple [PyList [PyFloat (1 / 10)],
                                 PyList [PyList [PyFloat (17 / 20), PyFloat 0]],
                                 PyList [PyFloat 0]]))
            doc_X doc_y (PyList [PyFloat (1 / 10)]) [] \<lparr>this = doc_lasso, calls = [], world = ()\<rparr>)
       = Inr (PyList [PyFloat (1 / 10)], PyList [PyList [PyFloat (17 / 20), PyFloat 0]],
              PyList [PyFloat 0], PyList [PyInt 1])
   \<and> fst (LassoCV_path
            (returning (PyTuple [PyList [PyFloat (1 / 10)],
                                 PyList [PyList [PyFloat (17 / 20), PyFloat 0]],
                                 PyList [PyFloat 0]]))
            doc_X doc_y (PyList [PyFloat (1 / 10)]) [(''copy_X'', PyBool True)]
            \<lparr>this = doc_lasso_cv, calls = [([doc_X, doc_y], [])], world = ()\<rparr>)
       = Inr (PyList [PyFloat (1 / 10)], PyList [PyList [PyFloat (17 / 20), PyFloat 0]],
              PyList [PyFloat 0])"
proof -
  let ?cp = "returning (PyTuple [PyList [PyFloat (1 / 10)],
                                 PyList [PyList [PyFloat (17 / 20), PyFloat 0]],
                                 PyList [PyFloat 0]])"
  have same: "doc_lasso ''max_iter'' = doc_lasso_cv ''max_iter''"
    "doc_lasso ''gap_freq'' = doc_lasso_cv ''gap_freq''"
    "doc_lasso ''max_epochs'' = doc_lasso_cv ''max_epochs''"
    "doc_lasso ''p0'' = doc_lasso_cv ''p0''"
    "doc_lasso ''verbose'' = doc_lasso_cv ''verbose''"
    "doc_lasso ''tol'' = doc_lasso_cv ''tol''"
    "doc_lasso ''prune'' = doc_lasso_cv ''prune''"
    by (simp_all add: doc_lasso_def doc_lasso_cv_def)
  then have hyp: "\<forall>name \<in> set [''max_iter'', ''gap_freq'', ''max_epochs'', ''p0'', ''verbose'', ''tol'',
                              ''prune''].
             this \<lparr>this = doc_lasso, calls = [], world = ()\<rparr> name
               = this \<lparr>this = doc_lasso_cv, calls = [([doc_X, doc_y], [])], world = ()\<rparr> name"
    by simp
  have w: "world \<lparr>this = doc_lasso, calls = [], world = ()\<rparr>
             = world \<lparr>this = doc_lasso_cv, calls = [([doc_X, doc_y], [])], world = ()\<rparr>"
    by simp
  have lasso: "fst (Lasso_path ?cp doc_X doc_y (PyList [PyFloat (1 / 10)]) []
                     \<lparr>this = doc_lasso, calls = [], world = ()\<rparr>)
       = Inr (PyList [PyFloat (1 / 10)], PyList [PyList [PyFloat (17 / 20), PyFloat 0]],
              PyList [PyFloat 0], PyList [PyInt 1])"
    by (simp add: Lasso_path_def getattr_def doc_lasso_def returning_def)
  from path_wrappers_call_alike [OF hyp w, where celer_path = ?cp and X = doc_X and y = doc_y
      and alphas = "PyList [PyFloat (1 / 10)]" and kwargs = "[]"
      and kwargs' = "[(''copy_X'', PyBool True)]"]
    lasso same
  show ?thesis
    by simp
qed

section \<open>The result of \<^verbatim>\<open>Lasso.path\<close> as a function of the call\<close>

text \<open>
  With the seven attributes stored, the result is what the one call returns, unpacked
  and repacked; with one of them missing, it is the \<open>AttributeError\<close> of the first
  missing one, and \<^verbatim>\<open>celer_path\<close> plays no part.
\<close>

lemma Lasso_path_result_stored:
  assumes "this s ''max_iter'' = Some mi" and "this s ''gap_freq'' = Some gf"
    and "this s ''max_epochs'' = Some me" and "this s ''p0'' = Some p"
    and "this s ''verbose'' = Some vb" and "this s ''tol'' = Some tv"
    and "this s ''prune'' = Some pr"
  shows "fst (Lasso_path cp X y al kwargs s)
       = map_sum id (\<lambda>(a, c, g). (a, c, g, PyList [PyInt 1]))
           (py_bind (fst (cp [X, y]
              [(''alphas'', al), (''max_iter'', mi), (''gap_freq'', gf), (''max_epochs'', me),
               (''p0'', p), (''verbose'', vb), (''tol'', tv), (''prune'', pr)] (world s))) unpack3)"
  using assms
  by (simp add: Lasso_path_def getattr_def case_prod_unfold split: sum.splits)

lemma Lasso_path_result_missing:
  assumes "this s ''max_iter'' = None \<or> this s ''gap_freq'' = None \<or> this s ''max_epochs'' = None
     \<or> this s ''p0'' = None \<or> this s ''verbose'' = None \<or> this s ''tol'' = None
     \<or> this s ''prune'' = None"
  shows "fst (Lasso_path cp X y al kwargs s)
       = Inl (AttributeError (hd (filter (\<lambda>name. this s name = None)
            [''max_iter'', ''gap_freq'', ''max_epochs'', ''p0'', ''verbose'', ''tol'', ''prune''])))"
  using assms
  by (auto simp add: Lasso_path_def getattr_def split: option.splits)

section \<open>What the modelled solver's results depend on\<close>

text \<open>
  The verbosity and the lines already printed go into the lines printed and nowhere
  else: a batch of epochs, one subproblem and a whole path end in the same states and
  the same PathResults whatever the two are. For the outer loop the induction is on the
  iterations left.
\<close>

lemma run_epochs_result:
  "fst (run_epochs K P l1 n k st o1) = fst (run_epochs K P l2 n k st o2)"
  by (induction k arbitrary: st o1 o2) auto

lemma outer_result:
  "fst (outer K P l1 n st o1) = fst (outer K P l2 n st o2)
   \<and> fst (snd (outer K P l1 n st o1)) = fst (snd (outer K P l2 n st o2))"
proof (induction "nat (cfg_max_iter (pd_config P) - n)" arbitrary: n st o1 o2 rule: less_induct)
  case less
  let ?k = "nat (min (cfg_gap_freq (pd_config P)) (cfg_max_epochs (pd_config P)))"
  obtain st2 a1 where e1: "run_epochs K P l1 (n + 1) ?k (grow K P st) o1 = (st2, a1)"
    by (cases "run_epochs K P l1 (n + 1) ?k (grow K P st) o1")
  obtain st2' a2 where e2: "run_epochs K P l2 (n + 1) ?k (grow K P st) o2 = (st2', a2)"
    by (cases "run_epochs K P l2 (n + 1) ?k (grow K P st) o2")
  from run_epochs_result [of K P l1 "n + 1" ?k "grow K P st" o1 l2 o2] e1 e2
  have same: "st2' = st2" by simp
  obtain g st3 where gc: "gap_check K P st2 = (g, st3)"
    by (cases "gap_check K P st2")
  show ?case
  proof (cases "g \<le> cfg_tol (pd_config P)")
    case True
    with e1 e2 same gc show ?thesis
      by (simp add: Let_def)
  next
    case False
    show ?thesis
    proof (cases "n + 1 < cfg_max_iter (pd_config P)")
      case True
      then have "nat (cfg_max_iter (pd_config P) - (n + 1)) < nat (cfg_max_iter (pd_config P) - n)"
        by simp
      from less [OF this] False True e1 e2 same gc show ?thesis
        by (subst (1 2 3 4) outer.simps) (simp add: Let_def)
    next
      case no: False
      with False e1 e2 same gc show ?thesis
        by (simp add: Let_def)
    qed
  qed
qed

lemma path_loop_result:
  "fst (path_loop K X y cfg l1 as prev o1) = fst (path_loop K X y cfg l2 as prev o2)"
proof (induction as arbitrary: prev o1 o2)
  case Nil
  show ?case by simp
next
  case (Cons a as)
  let ?P = "\<lparr>pd_X = X, pd_y = y, pd_alpha = a, pd_config = cfg\<rparr>"
  obtain r1 s1 a1 where e1: "outer K ?P l1 0 (warm_start K ?P prev) o1 = (r1, s1, a1)"
    by (cases "outer K ?P l1 0 (warm_start K ?P prev) o1")
  obtain r2 s2 a2 where e2: "outer K ?P l2 0 (warm_start K ?P prev) o2 = (r2, s2, a2)"
    by (cases "outer K ?P l2 0 (warm_start K ?P prev) o2")
  from outer_result [of K ?P l1 0 "warm_start K ?P prev" o1 l2 o2] e1 e2
  have same: "r2 = r1" "s2 = s1" by simp_all
  obtain rs1 b1 where t1: "path_loop K X y cfg l1 as (Some s1) a1 = (rs1, b1)"
    by (cases "path_loop K X y cfg l1 as (Some s1) a1")
  obtain rs2 b2 where t2: "path_loop K X y cfg l2 as (Some s1) a2 = (rs2, b2)"
    by (cases "path_loop K X y cfg l2 as (Some s1) a2")
  from Cons.IH [of "Some s1" a1 a2] t1 t2 have "rs2 = rs1" by simp
  with e1 e2 same t1 t2 show ?case
    by (simp del: outer.simps)
qed

lemma celer_path_spec_verbose:
  assumes "as_int v1 = Some l1" and "as_int v2 = Some l2"
  shows "fst (celer_path_spec K [X, y]
                [(''alphas'', al), (''max_iter'', mi), (''gap_freq'', gf), (''max_epochs'', me),
                 (''p0'', p), (''verbose'', v1), (''tol'', tv), (''prune'', pr)] o1)
       = fst (celer_path_spec K [X, y]
                [(''alphas'', al), (''max_iter'', mi), (''gap_freq'', gf), (''max_epochs'', me),
                 (''p0'', p), (''verbose'', v2), (''tol'', tv), (''prune'', pr)] o2)"
proof -
  have "fst (case path_loop K X y cfg l1 as None o1 of (rs, out') \<Rightarrow> (f rs, out'))
      = fst (case path_loop K X y cfg l2 as None o2 of (rs, out') \<Rightarrow> (f rs, out'))"
    for cfg as and f :: "path_result list \<Rightarrow> exn + pyval"
    using path_loop_result [of K X y cfg l1 as None o1 l2 o2]
    by (simp add: case_prod_unfold)
  with assms show ?thesis
    by (simp add: celer_path_spec_def kwarg_def split: option.splits Option.bind_splits)
qed

text \<open>
  C4. Two invocations of \<^verbatim>\<open>Lasso.path\<close> on the same \<^verbatim>\<open>X\<close>, \<^verbatim>\<open>y\<close> and \<^verbatim>\<open>alphas\<close>, on
  instances that differ in nothing but \<^verbatim>\<open>verbose\<close> (a bool or an integer both times),
  return the same alphas, coefficient vectors and duality gaps, or end in the same
  exception: over the solver modelled from the specification, with any kernel, the
  verbosity has no effect on a numerical result. What was printed before either call
  has none either.
\<close>

theorem verbose_changes_no_result:
  assumes same: "\<forall>name \<in> set [''max_iter'', ''gap_freq'', ''max_epochs'', ''p0'', ''tol'', ''prune''].
             this s1 name = this s2 name"
    and v1: "this s1 ''verbose'' = Some v1" and v2: "this s2 ''verbose'' = Some v2"
    and l1: "as_int v1 = Some l1" and l2: "as_int v2 = Some l2"
  shows "fst (Lasso_path (celer_path_spec K) X y alphas kwargs s1)
       = fst (Lasso_path (celer_path_spec K) X y alphas kwargs s2)"
proof (cases "this s1 ''max_iter'' = None \<or> this s1 ''gap_freq'' = None
     \<or> this s1 ''max_epochs'' = None \<or> this s1 ''p0'' = None \<or> this s1 ''tol'' = None
     \<or> this s1 ''prune'' = None")
  case True
  with same v1 v2 show ?thesis
    by (subst (1 2) Lasso_path_result_missing) auto
next
  case False
  then obtain mi gf me p tv pr where
    a1: "this s1 ''max_iter'' = Some mi" "this s1 ''gap_freq'' = Some gf"
      "this s1 ''max_epochs'' = Some me" "this s1 ''p0'' = Some p"
    and b1: "this s1 ''tol'' = Some tv" "this s1 ''prune'' = Some pr"
    by auto
  with same have a2: "this s2 ''max_iter'' = Some mi" "this s2 ''gap_freq'' = Some gf"
      "this s2 ''max_epochs'' = Some me" "this s2 ''p0'' = Some p"
    and b2: "this s2 ''tol'' = Some tv" "this s2 ''prune'' = Some pr"
    by simp_all
  show ?thesis
    unfolding Lasso_path_result_stored [OF a1 v1 b1] Lasso_path_result_stored [OF a2 v2 b2]
    by (simp add: celer_path_spec_verbose
        [OF l1 l2, of K X y alphas mi gf me p tv pr "world s1" "world s2"])
qed

text \<open>
  The two instances \<open>coarse_lasso\<close> and \<open>chatty_lasso\<close> on a path of two alphas: the same
  result, no line printed by the first and ten by the second.
\<close>

theorem verbose_changes_no_result_witness:
  "fst (Lasso_path (celer_path_spec halving) doc_X doc_y (PyList [PyFloat 1, PyFloat (1 / 2)]) []
          \<lparr>this = coarse_lasso, calls = [], world = []\<rparr>)
     = Inr (PyList [PyFloat 1, PyFloat (1 / 2)],
            PyList [PyList [PyFloat (1 / 4)], PyList [PyFloat (5 / 32)]],
            PyList [PyFloat (1 / 4), PyFloat (5 / 32)],
            PyList [PyInt 1])
   \<and> fst (Lasso_path (celer_path_spec halving) doc_X doc_y (PyList [PyFloat 1, PyFloat (1 / 2)]) []
          \<lparr>this = chatty_lasso, calls = [], world = []\<rparr>)
     = Inr (PyList [PyFloat 1, PyFloat (1 / 2)],
            PyList [PyList [PyFloat (1 / 4)], PyList [PyFloat (5 / 32)]],
            PyList [PyFloat (1 / 4), PyFloat (5 / 32)],
            PyList [PyInt 1])
   \<and> world (snd (Lasso_path (celer_path_spec halving) doc_X doc_y
                   (PyList [PyFloat 1, PyFloat (1 / 2)]) []
                   \<lparr>this = coarse_lasso, calls = [], world = []\<rparr>)) = []
   \<and> world (snd (Lasso_path (celer_path_spec halving) doc_X doc_y
                   (PyList [PyFloat 1, PyFloat (1 / 2)]) []
                   \<lparr>this = chatty_lasso, calls = [], world = []\<rparr>))
     = [Epoch_line 1 1 0, Gap_line 1 1 (1 / 2), Epoch_line 1 2 0, Gap_line 1 2 (1 / 4),
        Epoch_line (1 / 2) 1 0, Gap_line (1 / 2) 1 (5 / 8), Epoch_line (1 / 2) 2 0,
        Gap_line (1 / 2) 2 (5 / 16), Epoch_line (1 / 2) 3 0, Gap_line (1 / 2) 3 (5 / 32)]"
proof -
  let ?quiet = "\<lparr>this = coarse_lasso, calls = [], world = [] :: log_line list\<rparr>"
  let ?chatty = "\<lparr>this = chatty_lasso, calls = [], world = [] :: log_line list\<rparr>"
  have same: "\<forall>name \<in> set [''max_iter'', ''gap_freq'', ''max_epochs'', ''p0'', ''tol'', ''prune''].
                this ?quiet name = this ?chatty name"
    by (simp add: coarse_lasso_def chatty_lasso_def)
  have v: "this ?quiet ''verbose'' = Some (PyInt 0)" "this ?chatty ''verbose'' = Some (PyInt 2)"
    by (simp_all add: coarse_lasso_def chatty_lasso_def)
  have l: "as_int (PyInt 0) = Some 0" "as_int (PyInt 2) = Some 2"
    by simp_all
  have quiet: "fst (Lasso_path (celer_path_spec halving) doc_X doc_y
                      (PyList [PyFloat 1, PyFloat (1 / 2)]) [] ?quiet)
     = Inr (PyList [PyFloat 1, PyFloat (1 / 2)],
            PyList [PyList [PyFloat (1 / 4)], PyList [PyFloat (5 / 32)]],
            PyList [PyFloat (1 / 4), PyFloat (5 / 32)],
            PyList [PyInt 1])"
    by (simp add: Lasso_path_def getattr_def coarse_lasso_def celer_path_spec_def kwarg_def
        halving_def)
  have printed: "world (snd (Lasso_path (celer_path_spec halving) doc_X doc_y
                   (PyList [PyFloat 1, PyFloat (1 / 2)]) [] ?quiet)) = []"
    "world (snd (Lasso_path (celer_path_spec halving) doc_X doc_y
                   (PyList [PyFloat 1, PyFloat (1 / 2)]) [] ?chatty))
     = [Epoch_line 1 1 0, Gap_line 1 1 (1 / 2), Epoch_line 1 2 0, Gap_line 1 2 (1 / 4),
        Epoch_line (1 / 2) 1 0, Gap_line (1 / 2) 1 (5 / 8), Epoch_line (1 / 2) 2 0,
        Gap_line (1 / 2) 2 (5 / 16), Epoch_line (1 / 2) 3 0, Gap_line (1 / 2) 3 (5 / 32)]"
    by (simp_all add: Lasso_path_def getattr_def coarse_lasso_def chatty_lasso_def
        celer_path_spec_def kwarg_def halving_def)
  from verbose_changes_no_result [OF same v l, where K = halving and X = doc_X and y = doc_y
      and alphas = "PyList [PyFloat 1, PyFloat (1 / 2)]" and kwargs = "[]"]
    quiet printed
  show ?thesis
    by simp
qed

section \<open>Configuration errors\<close>




section \<open>The modelled solver under the wrapper, on two inputs\<close>

text \<open>
  A configuration the modelled solver does not admit: the \<open>ValueError\<close> it raises before
  the first subproblem reaches the caller of \<^verbatim>\<open>Lasso.path\<close> as it is, with nothing printed.
  The rejection is the solver's; the wrapper has made its call.
\<close>

lemma modelled_rejection_reaches_the_caller:
  "Lasso_path (celer_path_spec halving) empty_X doc_y (PyList [PyFloat (- 1)]) []
      \<lparr>this = invalid_lasso, calls = [], world = []\<rparr>
   = (Inl ValueError,
      \<lparr>this = invalid_lasso,
       calls = [([empty_X, doc_y],
                 [(''alphas'', PyList [PyFloat (- 1)]), (''max_iter'', PyInt 100),
                  (''gap_freq'', PyInt 10), (''max_epochs'', PyInt 50000), (''p0'', PyInt 10),
                  (''verbose'', PyInt 0), (''tol'', PyFloat 0), (''prune'', PyInt 0)])],
       world = []\<rparr>)"
  by (simp add: Lasso_path_def getattr_def invalid_lasso_def celer_path_spec_def kwarg_def
      halving_def)

text \<open>
  The two subproblems of the path above take two and three outer iterations in the
  modelled solver; \<^verbatim>\<open>Lasso.path\<close> reports \<^verbatim>\<open>[1]\<close>.
\<close>

lemma modelled_iteration_counts_stay_inside:
  "map pr_n_iter
     (fst (path_loop halving doc_X doc_y
             \<lparr>cfg_tol = 1 / 4, cfg_max_iter = 100, cfg_max_epochs = 50000, cfg_gap_freq = 1,
              cfg_p0 = 10, cfg_prune = 0\<rparr> 0 [1, 1 / 2] None [])) = [2, 3]
   \<and> fst (Lasso_path (celer_path_spec halving) doc_X doc_y
            (PyList [PyFloat 1, PyFloat (1 / 2)]) []
            \<lparr>this = coarse_lasso, calls = [], world = []\<rparr>)
     = Inr (PyList [PyFloat 1, PyFloat (1 / 2)],
            PyList [PyList [PyFloat (1 / 4)], PyList [PyFloat (5 / 32)]],
            PyList [PyFloat (1 / 4), PyFloat (5 / 32)],
            PyList [PyInt 1])"
  by (simp add: Lasso_path_def getattr_def coarse_lasso_def celer_path_spec_def kwarg_def
      halving_def)

end
